theory Spec2Isabelle
  imports Complex_Main
begin

section \<open>Fitness tracker: a shallow embedding of homework.py\<close>

text \<open>
  The module computes distance, mean speed and spent calories for three kinds of
  workout and renders one summary line per workout.

  Numbers. The dataclass annotations (\<open>int\<close>, \<open>float\<close>) are not enforced by Python, and
  the factory binds whatever raw numbers it is given. Every number is modelled as an
  exact \<open>real\<close>: Python's \<open>int\<close> and \<open>float\<close> are both embedded into it, and the
  rounding and range of IEEE doubles are left out of the model. What Python raises is
  kept: \<open>/\<close> and \<open>//\<close> raise \<open>ZeroDivisionError\<close> on a zero divisor.

  Strings. A Python \<open>str\<close> is a sequence of Unicode code points, modelled as a list of
  code points.
\<close>

subsection \<open>Strings and errors\<close>

type_synonym pystr = "nat list"

definition ascii :: "string \<Rightarrow> pystr" where
  "ascii s = map of_char s"

datatype py_error = ZeroDivisionError | ValueError pystr | TypeError

subsection \<open>Python arithmetic that can raise\<close>

text \<open>\<open>x / y\<close>: true division.\<close>

definition py_truediv :: "real \<Rightarrow> real \<Rightarrow> py_error + real" where
  "py_truediv x y = (if y = 0 then Inl ZeroDivisionError else Inr (x / y))"

text \<open>\<open>x // y\<close>: floor division; on floats the result is the floored quotient, as a float.\<close>

definition py_floordiv :: "real \<Rightarrow> real \<Rightarrow> py_error + real" where
  "py_floordiv x y = (if y = 0 then Inl ZeroDivisionError else Inr (of_int \<lfloor>x / y\<rfloor>))"

subsection \<open>The format specification \<open>.3f\<close>\<close>

text \<open>
  \<open>format(x, '.3f')\<close> renders the value in fixed-point notation with three digits after
  the point: a minus sign for a negative value, the integer part without leading zeros
  (at least one digit), a point, three digits. The value is rounded to the nearest
  multiple of one thousandth, a tie going to the even one.
\<close>

definition round_half_even :: "real \<Rightarrow> int" where
  "round_half_even y =
     (let f = \<lfloor>y\<rfloor>; r = y - of_int f
      in if r < 1 / 2 then f else if 1 / 2 < r then f + 1 else if even f then f else f + 1)"

definition digit_char :: "nat \<Rightarrow> nat" where
  "digit_char d = 48 + d"

fun str_nat :: "nat \<Rightarrow> pystr" where
  "str_nat n = (if n < 10 then [digit_char n] else str_nat (n div 10) @ [digit_char (n mod 10)])"

declare str_nat.simps [simp del]

definition format_3f :: "real \<Rightarrow> pystr" where
  "format_3f x =
     (let n = nat (round_half_even (\<bar>x\<bar> * 1000))
      in (if x < 0 then [45] else []) @ str_nat (n div 1000) @ [46] @
         [digit_char (n div 100 mod 10), digit_char (n div 10 mod 10), digit_char (n mod 10)])"



subsection \<open>InfoMessage\<close>

datatype info_message = InfoMessage (training_type: pystr) real real real real

text \<open>
  The literal pieces of \<open>MESSAGE\<close> between its placeholders, as code points:
  \<open>MSG_TYPE\<close> is U+0422 U+0438 U+043F (three Cyrillic letters), a space, ten more
  Cyrillic letters, a colon and a space; the others likewise.
\<close>

definition MSG_TYPE :: pystr where
  "MSG_TYPE = [1058, 1080, 1087, 32, 1090, 1088, 1077, 1085, 1080, 1088, 1086, 1074, 1082,
               1080, 58, 32]"

definition MSG_DURATION :: pystr where
  "MSG_DURATION = [59, 32, 1044, 1083, 1080, 1090, 1077, 1083, 1100, 1085, 1086, 1089, 1090,
                   1100, 58, 32]"

definition MSG_DISTANCE :: pystr where
  "MSG_DISTANCE = [32, 1095, 46, 59, 32, 1044, 1080, 1089, 1090, 1072, 1085, 1094, 1080, 1103,
                   58, 32]"

definition MSG_SPEED :: pystr where
  "MSG_SPEED = [32, 1082, 1084, 59, 32, 1057, 1088, 46, 32, 1089, 1082, 1086, 1088, 1086, 1089,
                1090, 1100, 58, 32]"

definition MSG_CALORIES :: pystr where
  "MSG_CALORIES = [32, 1082, 1084, 47, 1095, 59, 32, 1055, 1086, 1090, 1088, 1072, 1095, 1077,
                   1085, 1086, 32, 1082, 1082, 1072, 1083, 58, 32]"

definition MSG_END :: pystr where
  "MSG_END = [46]"

fun get_message :: "info_message \<Rightarrow> pystr" where
  "get_message (InfoMessage kind dur dst spd cal) =
     MSG_TYPE @ kind @
     MSG_DURATION @ format_3f dur @
     MSG_DISTANCE @ format_3f dst @
     MSG_SPEED @ format_3f spd @
     MSG_CALORIES @ format_3f cal @
     MSG_END"

subsection \<open>Training and its three subclasses\<close>

text \<open>
  The factory builds objects of the three subclasses only; each constructor carries the
  fields of its class in declaration order.
\<close>

datatype training =
    Running (action: real) (duration: real) (weight: real)
  | SportsWalking (action: real) (duration: real) (weight: real) (height: real)
  | Swimming (action: real) (duration: real) (weight: real)
             (length_pool: real) (count_pool: real)

fun class_name :: "training \<Rightarrow> pystr" where
  "class_name (Running _ _ _) = ascii ''Running''"
| "class_name (SportsWalking _ _ _ _) = ascii ''SportsWalking''"
| "class_name (Swimming _ _ _ _ _) = ascii ''Swimming''"

text \<open>Class constants; \<open>Swimming\<close> overrides \<open>LEN_STEP\<close>.\<close>

fun LEN_STEP :: "training \<Rightarrow> real" where
  "LEN_STEP (Swimming _ _ _ _ _) = 1.38"
| "LEN_STEP _ = 0.65"

definition M_IN_KM :: real where "M_IN_KM = 1000"
definition MIN_IN_HOUR :: real where "MIN_IN_HOUR = 60"
definition RATIO_RUN_1 :: real where "RATIO_RUN_1 = 18"
definition RATIO_RUN_2 :: real where "RATIO_RUN_2 = 20"
definition RATIO_WLK_1 :: real where "RATIO_WLK_1 = 0.035"
definition RATIO_WLK_2 :: real where "RATIO_WLK_2 = 0.029"
definition RATIO_SWM_1 :: real where "RATIO_SWM_1 = 1.1"
definition RATIO_SWM_2 :: real where "RATIO_SWM_2 = 2"

text \<open>
  \<open>get_distance\<close>: \<open>Swimming\<close> overrides the method with the same body, so one equation
  serves all three classes; the divisor is the nonzero constant \<open>M_IN_KM\<close>.
\<close>

definition get_distance :: "training \<Rightarrow> real" where
  "get_distance self = action self * LEN_STEP self / M_IN_KM"

fun get_mean_speed :: "training \<Rightarrow> py_error + real" where
  "get_mean_speed (Swimming a d w lp cp) = py_truediv (lp * cp / M_IN_KM) d"
| "get_mean_speed self = py_truediv (get_distance self) (duration self)"

fun get_spent_calories :: "training \<Rightarrow> py_error + real" where
  "get_spent_calories (Running a d w) =
     (case get_mean_speed (Running a d w) of
        Inl e \<Rightarrow> Inl e
      | Inr v \<Rightarrow> Inr ((RATIO_RUN_1 * v - RATIO_RUN_2) * w / M_IN_KM * d * MIN_IN_HOUR))"
| "get_spent_calories (SportsWalking a d w h) =
     (case get_mean_speed (SportsWalking a d w h) of
        Inl e \<Rightarrow> Inl e
      | Inr v \<Rightarrow>
          (case py_floordiv (v ^ 2) h of
             Inl e \<Rightarrow> Inl e
           | Inr q \<Rightarrow> Inr ((RATIO_WLK_1 * w + q * RATIO_WLK_2 * w) * d * MIN_IN_HOUR)))"
| "get_spent_calories (Swimming a d w lp cp) =
     (case get_mean_speed (Swimming a d w lp cp) of
        Inl e \<Rightarrow> Inl e
      | Inr v \<Rightarrow> Inr ((v + RATIO_SWM_1) * RATIO_SWM_2 * w))"

text \<open>
  \<open>show_training_info\<close> evaluates the constructor's arguments left to right; the first
  one that raises ends the call.
\<close>

definition show_training_info :: "training \<Rightarrow> py_error + info_message" where
  "show_training_info self =
     (case get_mean_speed self of
        Inl e \<Rightarrow> Inl e
      | Inr v \<Rightarrow>
          (case get_spent_calories self of
             Inl e \<Rightarrow> Inl e
           | Inr c \<Rightarrow> Inr (InfoMessage (class_name self) (duration self) (get_distance self) v c)))"

subsection \<open>Method calls as state transformers\<close>



subsection \<open>The factory and the main function\<close>

text \<open>
  Calling a dataclass with \<open>*data\<close> binds the values to the fields in declaration order
  and raises \<open>TypeError\<close> when their number does not fit.
\<close>

fun Running_init :: "real list \<Rightarrow> py_error + training" where
  "Running_init [a, d, w] = Inr (Running a d w)"
| "Running_init _ = Inl TypeError"

fun SportsWalking_init :: "real list \<Rightarrow> py_error + training" where
  "SportsWalking_init [a, d, w, h] = Inr (SportsWalking a d w h)"
| "SportsWalking_init _ = Inl TypeError"

fun Swimming_init :: "real list \<Rightarrow> py_error + training" where
  "Swimming_init [a, d, w, lp, cp] = Inr (Swimming a d w lp cp)"
| "Swimming_init _ = Inl TypeError"

definition type_train :: "pystr \<rightharpoonup> (real list \<Rightarrow> py_error + training)" where
  "type_train = [ascii ''RUN'' \<mapsto> Running_init,
                 ascii ''SWM'' \<mapsto> Swimming_init,
                 ascii ''WLK'' \<mapsto> SportsWalking_init]"

text \<open>The message of the \<open>ValueError\<close>: thirty code points, three Cyrillic words and a particle.\<close>

definition NO_SUCH_TRAINING :: pystr where
  "NO_SUCH_TRAINING = [1058, 1072, 1082, 1086, 1081, 32, 1090, 1088, 1077, 1085, 1080, 1088,
                       1086, 1074, 1082, 1080, 32, 1085, 1077, 32, 1089, 1091, 1097, 1077, 1089,
                       1090, 1074, 1091, 1077, 1090]"

text \<open>
  \<open>read_package\<close>: a missing key raises \<open>KeyError\<close>, which the handler turns into
  \<open>ValueError\<close>; the constructors raise no \<open>KeyError\<close>, so their \<open>TypeError\<close> passes through.
\<close>

definition read_package :: "pystr \<Rightarrow> real list \<Rightarrow> py_error + training" where
  "read_package workout_type data =
     (case type_train workout_type of
        None \<Rightarrow> Inl (ValueError NO_SUCH_TRAINING)
      | Some cls \<Rightarrow> cls data)"

text \<open>\<open>main\<close> prints one line; the model returns the line printed, or the error raised.\<close>

definition main :: "training \<Rightarrow> py_error + pystr" where
  "main training =
     (case show_training_info training of
        Inl e \<Rightarrow> Inl e
      | Inr info \<Rightarrow> Inr (get_message info))"

section \<open>Properties\<close>

lemmas class_constants =
  M_IN_KM_def MIN_IN_HOUR_def RATIO_RUN_1_def RATIO_RUN_2_def
  RATIO_WLK_1_def RATIO_WLK_2_def RATIO_SWM_1_def RATIO_SWM_2_def

lemmas py_arith = py_truediv_def py_floordiv_def

subsection \<open>Calories and speed of the three classes\<close>



text \<open>
  C2. For a swimming workout with nonzero duration, \<open>get_mean_speed\<close> returns
  \<open>(length_pool * count_pool / 1000) / duration\<close>. The number of strokes plays no role:
  two workouts that differ in \<open>action\<close> only have the same mean speed, and the speed is
  not \<open>get_distance\<close> divided by the duration. For 1 hour and 40 laps of 25 m it is 1.
\<close>

theorem swimming_mean_speed:
  "(\<forall>a d w lp cp. d \<noteq> 0 \<longrightarrow>
      get_mean_speed (Swimming a d w lp cp) = Inr ((lp * cp / 1000) / d))
   \<and> (\<forall>a a' d w lp cp.
        get_mean_speed (Swimming a d w lp cp) = get_mean_speed (Swimming a' d w lp cp))
   \<and> (\<forall>a w. get_mean_speed (Swimming a 1 w 25 40) = Inr 1)
   \<and> get_distance (Swimming 720 1 80 25 40) / 1 \<noteq> 1"
  by (simp add: py_arith class_constants get_distance_def)

theorem swimming_mean_speed_witness:
  "(1::real) \<noteq> 0 \<and> get_mean_speed (Swimming 720 1 80 25 40) = Inr ((25 * 40 / 1000) / 1)"
  using swimming_mean_speed [THEN conjunct1, rule_format, of 1 720 80 25 40] by simp

text \<open>
  C3, as amended. For a running workout with nonzero duration, \<open>get_spent_calories\<close>
  returns \<open>(18 * speed - 20) * weight / 1000 * duration * 60\<close>, where \<open>speed\<close> is what
  \<open>get_mean_speed\<close> returns. For 15000 steps, 1 hour and 75 kg the speed is 9.75 and the
  result is 699.75.
\<close>

theorem running_spent_calories:
  "(\<forall>a d w. d \<noteq> 0 \<longrightarrow>
      (\<exists>v. get_mean_speed (Running a d w) = Inr v \<and>
           get_spent_calories (Running a d w) = Inr ((18 * v - 20) * w / 1000 * d * 60)))
   \<and> get_mean_speed (Running 15000 1 75) = Inr 9.75
   \<and> get_spent_calories (Running 15000 1 75) = Inr 699.75"
  by (simp add: py_arith class_constants get_distance_def)

theorem running_spent_calories_witness:
  "(1::real) \<noteq> 0 \<and>
   (\<exists>v. get_mean_speed (Running 15000 1 75) = Inr v \<and>
        get_spent_calories (Running 15000 1 75) = Inr ((18 * v - 20) * 75 / 1000 * 1 * 60))"
  using running_spent_calories [THEN conjunct1, rule_format, of 1 15000 75] by simp

text \<open>
  C3, as stated, gives 722.25 for 15000 steps, 1 hour and 75 kg; the method does not
  return that value.
\<close>

theorem running_spent_calories_counterexample:
  "get_spent_calories (Running 15000 1 75) \<noteq> Inr 722.25"
  by (simp add: py_arith class_constants get_distance_def)

text \<open>
  C8. For a swimming workout with nonzero duration, \<open>get_spent_calories\<close> returns
  \<open>(speed + 1.1) * 2 * weight\<close>, where \<open>speed\<close> is what \<open>get_mean_speed\<close> returns. For
  1 hour, 80 kg and 40 laps of 25 m the result is 336.
\<close>

theorem swimming_spent_calories:
  "(\<forall>a d w lp cp. d \<noteq> 0 \<longrightarrow>
      (\<exists>v. get_mean_speed (Swimming a d w lp cp) = Inr v \<and>
           get_spent_calories (Swimming a d w lp cp) = Inr ((v + 1.1) * 2 * w)))
   \<and> (\<forall>a. get_spent_calories (Swimming a 1 80 25 40) = Inr 336)"
  by (simp add: py_arith class_constants)

theorem swimming_spent_calories_witness:
  "(1::real) \<noteq> 0 \<and>
   (\<exists>v. get_mean_speed (Swimming 720 1 80 25 40) = Inr v \<and>
        get_spent_calories (Swimming 720 1 80 25 40) = Inr ((v + 1.1) * 2 * 80))"
  using swimming_spent_calories [THEN conjunct1, rule_format, of 1 720 80 25 40] by simp

subsection \<open>The factory\<close>

lemma type_train_cases:
  "type_train k = (if k = ascii ''WLK'' then Some SportsWalking_init
                   else if k = ascii ''SWM'' then Some Swimming_init
                   else if k = ascii ''RUN'' then Some Running_init else None)"
  by (simp add: type_train_def ascii_def)

text \<open>
  C4. For a code other than \<open>RUN\<close>, \<open>SWM\<close> and \<open>WLK\<close>, \<open>read_package\<close> fails with the
  \<open>ValueError\<close> that carries the (non-empty) message, whatever the data, and returns no
  object. For the three codes it builds the \<open>Running\<close>, \<open>Swimming\<close> and \<open>SportsWalking\<close>
  object whose fields are the raw values in order.
\<close>

theorem read_package_factory:
  "(\<forall>workout_type data.
      workout_type \<notin> {ascii ''RUN'', ascii ''SWM'', ascii ''WLK''} \<longrightarrow>
      read_package workout_type data = Inl (ValueError NO_SUCH_TRAINING) \<and>
      (\<forall>t. read_package workout_type data \<noteq> Inr t))
   \<and> NO_SUCH_TRAINING \<noteq> []
   \<and> (\<forall>a d w. read_package (ascii ''RUN'') [a, d, w] = Inr (Running a d w))
   \<and> (\<forall>a d w lp cp.
        read_package (ascii ''SWM'') [a, d, w, lp, cp] = Inr (Swimming a d w lp cp))
   \<and> (\<forall>a d w h. read_package (ascii ''WLK'') [a, d, w, h] = Inr (SportsWalking a d w h))"
  by (simp add: read_package_def type_train_cases NO_SUCH_TRAINING_def) (simp add: ascii_def)

theorem read_package_factory_witness:
  "ascii ''XYZ'' \<notin> {ascii ''RUN'', ascii ''SWM'', ascii ''WLK''} \<and>
   read_package (ascii ''XYZ'') [9000, 1, 75, 180] = Inl (ValueError NO_SUCH_TRAINING)"
  using read_package_factory [THEN conjunct1, rule_format, of "ascii ''XYZ''" "[9000, 1, 75, 180]"]
  by (simp add: ascii_def)

subsection \<open>Signs, faults and purity of the metric operations\<close>










subsection \<open>The summary line\<close>







lemmas format_3f_eval =
  format_3f_def round_half_even_def ascii_def str_nat.simps digit_char_def Let_def floor_eq_iff


lemma read_package_Inr:
  "read_package code data = Inr t \<Longrightarrow>
     (code = ascii ''RUN'' \<and> (\<exists>a d w. t = Running a d w)) \<or>
     (code = ascii ''SWM'' \<and> (\<exists>a d w lp cp. t = Swimming a d w lp cp)) \<or>
     (code = ascii ''WLK'' \<and> (\<exists>a d w h. t = SportsWalking a d w h))"
  by (auto simp: read_package_def type_train_cases split: if_splits
      elim: Running_init.elims Swimming_init.elims SportsWalking_init.elims)

lemma show_training_info_type:
  "show_training_info t = Inr info \<Longrightarrow> training_type info = class_name t"
  by (auto simp: show_training_info_def split: sum.splits)

lemma main_begins:
  "main t = Inr line \<Longrightarrow> \<exists>rest. line = MSG_TYPE @ class_name t @ rest"
  by (auto simp: main_def show_training_info_def split: sum.splits)

text \<open>
  C10. For a workout built by the factory, the label that \<open>show_training_info\<close> puts into
  the message is the name of the object's class, \<open>Running\<close>, \<open>Swimming\<close> or
  \<open>SportsWalking\<close>, and never the code given to the factory. For the code \<open>WLK\<close> every
  line that \<open>main\<close> prints begins with the text of \<open>MSG_TYPE\<close> followed by
  \<open>SportsWalking\<close>; for 9000 steps, 1 hour, 75 kg and 180 cm the line is the one given.
\<close>

theorem summary_label_is_class_name:
  "(read_package code data = Inr t \<longrightarrow> show_training_info t = Inr info \<longrightarrow>
      training_type info = class_name t \<and> training_type info \<noteq> code \<and>
      (code = ascii ''RUN'' \<longrightarrow> training_type info = ascii ''Running'') \<and>
      (code = ascii ''SWM'' \<longrightarrow> training_type info = ascii ''Swimming'') \<and>
      (code = ascii ''WLK'' \<longrightarrow> training_type info = ascii ''SportsWalking''))
   \<and> (read_package (ascii ''WLK'') data = Inr t \<longrightarrow> main t = Inr line \<longrightarrow>
        (\<exists>rest. line = MSG_TYPE @ ascii ''SportsWalking'' @ rest))
   \<and> (case read_package (ascii ''WLK'') [9000, 1, 75, 180] of
        Inl e \<Rightarrow> Inl e | Inr t \<Rightarrow> main t) =
       Inr (MSG_TYPE @ ascii ''SportsWalking'' @ MSG_DURATION @ ascii ''1.000'' @
            MSG_DISTANCE @ ascii ''5.850'' @ MSG_SPEED @ ascii ''5.850'' @
            MSG_CALORIES @ ascii ''157.500'' @ MSG_END)"
proof (intro conjI impI)
  assume rp: "read_package code data = Inr t" and si: "show_training_info t = Inr info"
  from si have ty: "training_type info = class_name t"
    by (rule show_training_info_type)
  from ty show "training_type info = class_name t" .
  from read_package_Inr [OF rp] ty show "training_type info \<noteq> code"
    by (auto simp: ascii_def)
  from read_package_Inr [OF rp] ty
  show "training_type info = ascii ''Running''" if "code = ascii ''RUN''"
    using that by (auto simp: ascii_def)
  from read_package_Inr [OF rp] ty
  show "training_type info = ascii ''Swimming''" if "code = ascii ''SWM''"
    using that by (auto simp: ascii_def)
  from read_package_Inr [OF rp] ty
  show "training_type info = ascii ''SportsWalking''" if "code = ascii ''WLK''"
    using that by (auto simp: ascii_def)
next
  assume rp: "read_package (ascii ''WLK'') data = Inr t" and m: "main t = Inr line"
  from read_package_Inr [OF rp] have "class_name t = ascii ''SportsWalking''"
    by (auto simp: ascii_def)
  with main_begins [OF m] show "\<exists>rest. line = MSG_TYPE @ ascii ''SportsWalking'' @ rest"
    by simp
next
  have rp: "read_package (ascii ''WLK'') [9000, 1, 75, 180] = Inr (SportsWalking 9000 1 75 180)"
    by (simp add: read_package_def type_train_cases)
  have si: "show_training_info (SportsWalking 9000 1 75 180) =
      Inr (InfoMessage (ascii ''SportsWalking'') 1 (117 / 20) (117 / 20) (315 / 2))"
    by (simp add: show_training_info_def py_arith class_constants get_distance_def
        floor_eq_iff power2_eq_square)
  have f1: "format_3f 1 = ascii ''1.000''" by (simp add: format_3f_eval)
  have f2: "format_3f (117 / 20) = ascii ''5.850''" by (simp add: format_3f_eval)
  have f3: "format_3f (315 / 2) = ascii ''157.500''" by (simp add: format_3f_eval)
  show "(case read_package (ascii ''WLK'') [9000, 1, 75, 180] of
        Inl e \<Rightarrow> Inl e | Inr t \<Rightarrow> main t) =
       Inr (MSG_TYPE @ ascii ''SportsWalking'' @ MSG_DURATION @ ascii ''1.000'' @
            MSG_DISTANCE @ ascii ''5.850'' @ MSG_SPEED @ ascii ''5.850'' @
            MSG_CALORIES @ ascii ''157.500'' @ MSG_END)"
    by (simp only: rp sum.case main_def si get_message.simps f1 f2 f3)
qed

theorem summary_label_is_class_name_witness:
  "read_package (ascii ''WLK'') [9000, 1, 75, 180] = Inr (SportsWalking 9000 1 75 180) \<and>
   show_training_info (SportsWalking 9000 1 75 180) =
     Inr (InfoMessage (ascii ''SportsWalking'') 1 5.85 5.85 157.5) \<and>
   training_type (InfoMessage (ascii ''SportsWalking'') 1 5.85 5.85 157.5) =
     ascii ''SportsWalking'' \<and>
   (\<exists>line. main (SportsWalking 9000 1 75 180) = Inr line \<and>
      (\<exists>rest. line = MSG_TYPE @ ascii ''SportsWalking'' @ rest))"
proof -
  have rp: "read_package (ascii ''WLK'') [9000, 1, 75, 180] = Inr (SportsWalking 9000 1 75 180)"
    by (simp add: read_package_def type_train_cases)
  have si: "show_training_info (SportsWalking 9000 1 75 180) =
     Inr (InfoMessage (ascii ''SportsWalking'') 1 5.85 5.85 157.5)"
    by (simp add: show_training_info_def py_arith class_constants get_distance_def
        floor_eq_iff power2_eq_square)
  have m: "main (SportsWalking 9000 1 75 180) =
     Inr (get_message (InfoMessage (ascii ''SportsWalking'') 1 5.85 5.85 157.5))"
    by (simp only: main_def si sum.case)
  from summary_label_is_class_name [THEN conjunct1, rule_format, OF rp si]
    summary_label_is_class_name [THEN conjunct2, THEN conjunct1, rule_format, OF rp m] rp si m
  show ?thesis by simp
qed

end
